theory Spec2Isabelle
  imports Main "HOL-Library.Word"
begin

section \<open>Strings of the script\<close>

text \<open>
  A JavaScript string is a sequence of UTF-16 code units, so a string of the script is a
  list of 16-bit words. \<open>lit\<close> embeds an ASCII literal of the source, one code unit per
  character. The three symbols the script prints are given by their code units.
\<close>

type_synonym jsstring = "16 word list"

definition lit :: "string \<Rightarrow> jsstring" where
  "lit s = map of_char s"

definition crossMark :: jsstring where
  "crossMark = [0x274C]"

definition checkMark :: jsstring where
  "checkMark = [0x2705]"

definition keySymbol :: jsstring where
  "keySymbol = [0xD83D, 0xDD11]"

text \<open>The character classes of the test file's patterns: [A-Z], [a-z], [0-9].\<close>

definition isUpper :: "16 word \<Rightarrow> bool" where
  "isUpper c = (0x41 \<le> c \<and> c \<le> 0x5A)"

definition isLower :: "16 word \<Rightarrow> bool" where
  "isLower c = (0x61 \<le> c \<and> c \<le> 0x7A)"

definition isDigit :: "16 word \<Rightarrow> bool" where
  "isDigit c = (0x30 \<le> c \<and> c \<le> 0x39)"

definition isAlphanumeric :: "16 word \<Rightarrow> bool" where
  "isAlphanumeric c = (isUpper c \<or> isLower c \<or> isDigit c)"

definition isHyphen :: "16 word \<Rightarrow> bool" where
  "isHyphen c = (c = 0x2D)"

section \<open>Library functions of the language\<close>

text \<open>
  \<open>Number.prototype.toString(radix)\<close> on a non-negative integer: the digits, most
  significant first, lower-case letters above 9, no leading zero. The script calls it
  with radix 16 and, through the template literal, with radix 10; outside 2..36 the
  language raises a RangeError, which no call of the script reaches.
\<close>

definition digitChars :: jsstring where
  "digitChars = lit ''0123456789abcdefghijklmnopqrstuvwxyz''"

function toStringRadix :: "nat \<Rightarrow> nat \<Rightarrow> jsstring" where
  "toStringRadix radix n =
     (if 2 \<le> radix \<and> radix \<le> n
      then toStringRadix radix (n div radix) @ [digitChars ! (n mod radix)]
      else [digitChars ! n])"
  by pat_completeness auto
termination
  by (relation "measure snd") auto

declare toStringRadix.simps [simp del]

text \<open>
  The conversion of an integer Number inside a template literal: a minus sign for a
  negative value, then the decimal digits. \<open>Date.now()\<close> returns an integer of
  magnitude at most 8.64e15, far below 1e21 where the language switches to exponent
  notation.
\<close>

definition numberToString :: "int \<Rightarrow> jsstring" where
  "numberToString i =
     (if i < 0 then lit ''-'' @ toStringRadix 10 (nat (- i)) else toStringRadix 10 (nat i))"

text \<open>\<open>String.prototype.padStart(targetLength, padString)\<close>.\<close>

definition padStart :: "nat \<Rightarrow> jsstring \<Rightarrow> jsstring \<Rightarrow> jsstring" where
  "padStart targetLength padString s =
     (if targetLength \<le> length s \<or> padString = [] then s
      else take (targetLength - length s)
             (concat (replicate (targetLength - length s) padString)) @ s)"

text \<open>\<open>Array.prototype.join('')\<close>.\<close>

definition join :: "jsstring list \<Rightarrow> jsstring" where
  "join parts = concat parts"

text \<open>
  \<open>String.prototype.indexOf\<close> and \<open>String.prototype.replace\<close> with a string
  pattern: only the first occurrence is replaced. The replacement of the script is the
  empty string, so no \<open>$\<close> pattern is involved.
\<close>

fun indexOf :: "jsstring \<Rightarrow> jsstring \<Rightarrow> nat option" where
  "indexOf [] pat = (if pat = [] then Some 0 else None)"
| "indexOf (c # cs) pat =
     (if take (length pat) (c # cs) = pat then Some 0
      else map_option Suc (indexOf cs pat))"

definition replace :: "jsstring \<Rightarrow> jsstring \<Rightarrow> jsstring \<Rightarrow> jsstring" where
  "replace s pat replacement =
     (case indexOf s pat of
        None \<Rightarrow> s
      | Some i \<Rightarrow> take i s @ replacement @ drop (i + length pat) s)"

section \<open>Credential generation helpers\<close>

text \<open>
  \<open>generateUsername\<close> reads the clock and two random bytes; the model takes what was
  read as arguments: \<open>timestamp\<close> is the value of \<open>Date.now()\<close>, \<open>randomHex\<close> the
  filled \<open>Uint8Array(2)\<close>.
\<close>

definition generateUsername :: "int \<Rightarrow> 8 word list \<Rightarrow> jsstring" where
  "generateUsername timestamp randomHex =
     (let hex = join (map (\<lambda>b. padStart 2 (lit ''0'') (toStringRadix 16 (unat b))) randomHex)
      in lit ''ci-test-'' @ numberToString timestamp @ lit ''-'' @ hex)"

definition alphanumeric :: jsstring where
  "alphanumeric = lit ''ABCDEFGHIJKLMNOPQRSTUVWXYZabcdefghijklmnopqrstuvwxyz0123456789''"

text \<open>\<open>randomBytes\<close> is the filled \<open>Uint8Array(8)\<close>.\<close>

definition generatePassword :: "8 word list \<Rightarrow> jsstring" where
  "generatePassword randomBytes =
     (let prefix = lit ''CiTest1!'';
          suffix = join (map (\<lambda>b. [alphanumeric ! (unat b mod length alphanumeric)]) randomBytes)
      in prefix @ suffix)"

definition generateEmail :: "jsstring \<Rightarrow> jsstring" where
  "generateEmail uniqueId = lit ''ci-test-'' @ uniqueId @ lit ''@test.example.com''"

section \<open>The pattern of the email property test\<close>

text \<open>
  The test file matches an email against \<^verbatim>\<open>/^ci-test-(.+)@test\.example\.com$/\<close>,
  with no flag. Without the \<open>s\<close> flag the dot matches any code unit but the four line
  terminators; without the \<open>m\<close> flag the anchors are the two ends of the string.
  \<open>emailPatternMatch\<close> returns the captured group of a match, \<open>None\<close> when the
  pattern does not match. The quantifier is greedy: it takes the longest run of
  admissible code units and gives them back one at a time until the rest of the string
  is the literal tail.
\<close>

definition isLineTerminator :: "16 word \<Rightarrow> bool" where
  "isLineTerminator c = (c = 0x0A \<or> c = 0x0D \<or> c = 0x2028 \<or> c = 0x2029)"

definition dotMatches :: "16 word \<Rightarrow> bool" where
  "dotMatches c = (\<not> isLineTerminator c)"

fun backtrack :: "nat \<Rightarrow> jsstring \<Rightarrow> jsstring \<Rightarrow> jsstring option" where
  "backtrack 0 rest tail = None"
| "backtrack (Suc k) rest tail =
     (if drop (Suc k) rest = tail then Some (take (Suc k) rest)
      else backtrack k rest tail)"

definition emailPatternMatch :: "jsstring \<Rightarrow> jsstring option" where
  "emailPatternMatch s =
     (let head = lit ''ci-test-''; rest = drop (length head) s
      in if take (length head) s = head
         then backtrack (length (takeWhile dotMatches rest)) rest (lit ''@test.example.com'')
         else None)"

section \<open>Test user provisioning\<close>

text \<open>
  The two commands the script sends to the identity provider, with the fields it sets.
\<close>

datatype command =
    SignUpCommand (ClientId: jsstring) (Username: jsstring) (Password: jsstring)
      (UserAttributes: "(jsstring \<times> jsstring) list")
  | AdminConfirmSignUpCommand (UserPoolId: jsstring) (Username: jsstring)

text \<open>
  What a rejected \<open>send\<close> throws: an \<open>Error\<close> instance with its message, or any other
  value (kept opaque). The catch block logs \<open>error.message\<close> for the first and the
  value itself for the second.
\<close>

datatype thrown = ErrorInstance jsstring | OtherValue nat

datatype logArg = Str jsstring | Raw nat

text \<open>
  The effects of a run, in the order the script performs them.
\<close>

datatype event =
    ConsoleError "logArg list"
  | ConsoleLog "logArg list"
  | DateNow
  | GetRandomValues nat
  | NewCognitoClient jsstring
  | Send command

datatype exit = ProcessExit int

record credentials =
  username :: jsstring
  password :: jsstring

text \<open>
  Everything a run reads from outside: the imported configuration object (a field that
  is absent reads as \<open>undefined\<close>, here \<open>None\<close>), the clock, the random source (the
  bytes it hands out, in order) and the identity provider's answer to each command
  (\<open>Inl\<close> when the call is rejected).
\<close>

record world =
  amplifyconfig :: "string \<rightharpoonup> jsstring"
  clock :: int
  randomSource :: "nat \<Rightarrow> 8 word"
  cognitoSend :: "command \<Rightarrow> thrown + unit"

text \<open>\<open>!x\<close> for \<open>x\<close> of type \<open>string | undefined\<close>.\<close>

definition falsy :: "jsstring option \<Rightarrow> bool" where
  "falsy x = (case x of None \<Rightarrow> True | Some s \<Rightarrow> s = [])"

definition getRandomValues :: "world \<Rightarrow> nat \<Rightarrow> nat \<Rightarrow> 8 word list" where
  "getRandomValues w used n = map (randomSource w) [used ..< used + n]"

definition errorArg :: "thrown \<Rightarrow> logArg" where
  "errorArg e = (case e of ErrorInstance message \<Rightarrow> Str message | OtherValue v \<Rightarrow> Raw v)"

definition failureMarker :: jsstring where
  "failureMarker = crossMark @ lit '' Failed to create test user:''"

definition createTestUser :: "world \<Rightarrow> event list \<times> (exit + credentials)" where
  "createTestUser w =
     (let userPoolId = amplifyconfig w ''aws_user_pools_id'';
          clientId = amplifyconfig w ''aws_user_pools_web_client_id'';
          region = amplifyconfig w ''aws_cognito_region''
      in
      if falsy userPoolId then
        ([ConsoleError [Str (crossMark @ lit '' Missing aws_user_pools_id in Amplify configuration'')]],
         Inl (ProcessExit 1))
      else if falsy clientId then
        ([ConsoleError [Str (crossMark @ lit '' Missing aws_user_pools_web_client_id in Amplify configuration'')]],
         Inl (ProcessExit 1))
      else if falsy region then
        ([ConsoleError [Str (crossMark @ lit '' Missing aws_cognito_region in Amplify configuration'')]],
         Inl (ProcessExit 1))
      else
        let uniqueId = replace (generateUsername (clock w) (getRandomValues w 0 2)) (lit ''ci-test-'') [];
            password = generatePassword (getRandomValues w 2 8);
            email = generateEmail uniqueId;
            signUp = SignUpCommand (the clientId) email password [(lit ''email'', email)];
            confirm = AdminConfirmSignUpCommand (the userPoolId) email;
            started =
              [DateNow, GetRandomValues 2, GetRandomValues 8,
               ConsoleLog [Str (lit [CHR 0x0A] @ keySymbol @ lit '' Creating test user: '' @ email)],
               NewCognitoClient (the region),
               Send signUp]
        in
        case cognitoSend w signUp of
          Inl error \<Rightarrow>
            (started @ [ConsoleError [Str failureMarker, errorArg error]], Inl (ProcessExit 1))
        | Inr _ \<Rightarrow>
            let confirming =
                  started @ [ConsoleLog [Str (checkMark @ lit '' SignUp succeeded'')], Send confirm]
            in
            (case cognitoSend w confirm of
               Inl error \<Rightarrow>
                 (confirming @ [ConsoleError [Str failureMarker, errorArg error]],
                  Inl (ProcessExit 1))
             | Inr _ \<Rightarrow>
                 (confirming @ [ConsoleLog [Str (checkMark @ lit '' AdminConfirmSignUp succeeded'')]],
                  Inr \<lparr>username = email, password = password\<rparr>)))"

text \<open>The commands of a run, in the order they were sent.\<close>

fun sent :: "event list \<Rightarrow> command list" where
  "sent [] = []"
| "sent (Send c # es) = c # sent es"
| "sent (e # es) = sent es"

subsection \<open>The mocks of the unit tests\<close>

text \<open>
  The unit tests replace the configuration by \<open>mockConfig\<close>, or by a copy with one field
  removed or emptied, and the provider by a client whose \<open>send\<close> resolves or rejects
  with \<open>Error('User already exists')\<close> or \<open>Error('User cannot be confirmed')\<close>.
  \<open>mockWorld\<close> completes them with a clock reading and a random source.
\<close>

definition mockConfig :: "string \<rightharpoonup> jsstring" where
  "mockConfig =
     [''aws_user_pools_id'' \<mapsto> lit ''us-east-1_TestPool'',
      ''aws_user_pools_web_client_id'' \<mapsto> lit ''test-client-id-123'',
      ''aws_cognito_region'' \<mapsto> lit ''us-east-1'']"

definition sendResolves :: "command \<Rightarrow> thrown + unit" where
  "sendResolves c = Inr ()"

definition signUpRejects :: "command \<Rightarrow> thrown + unit" where
  "signUpRejects c =
     (case c of
        SignUpCommand _ _ _ _ \<Rightarrow> Inl (ErrorInstance (lit ''User already exists''))
      | AdminConfirmSignUpCommand _ _ \<Rightarrow> Inr ())"

definition confirmRejects :: "command \<Rightarrow> thrown + unit" where
  "confirmRejects c =
     (case c of
        SignUpCommand _ _ _ _ \<Rightarrow> Inr ()
      | AdminConfirmSignUpCommand _ _ \<Rightarrow> Inl (ErrorInstance (lit ''User cannot be confirmed'')))"

definition mockWorld :: "(string \<rightharpoonup> jsstring) \<Rightarrow> (command \<Rightarrow> thrown + unit) \<Rightarrow> world" where
  "mockWorld cfg send =
     \<lparr>amplifyconfig = cfg, clock = 1719432000000,
      randomSource = (\<lambda>i. word_of_nat (i * 83 + 163)), cognitoSend = send\<rparr>"

section \<open>Facts about the library functions\<close>

lemma length_lit: "length (lit s) = length s"
  by (simp add: lit_def)

lemma length_digitChars: "length digitChars = 36"
  by (simp add: digitChars_def lit_def)

lemma distinct_digitChars: "distinct digitChars"
  by (simp add: digitChars_def lit_def)

lemma digitChars_inj:
  "i < 36 \<Longrightarrow> j < 36 \<Longrightarrow> digitChars ! i = digitChars ! j \<Longrightarrow> i = j"
  using distinct_digitChars length_digitChars
  by (simp add: nth_eq_iff_index_eq)

lemma decimal_digitChars: "list_all isDigit (take 10 digitChars)"
  by (simp add: digitChars_def lit_def isDigit_def)

lemma hex_digitChars: "list_all (\<lambda>c. isDigit c \<or> isLower c) (take 16 digitChars)"
  by (simp add: digitChars_def lit_def isDigit_def isLower_def)

lemma digitChars_decimal: "k < 10 \<Longrightarrow> isDigit (digitChars ! k)"
  using decimal_digitChars length_digitChars
  by (simp add: list_all_length)

lemma digitChars_hex: "k < 16 \<Longrightarrow> isDigit (digitChars ! k) \<or> isLower (digitChars ! k)"
  using hex_digitChars length_digitChars
  by (simp add: list_all_length)

lemma toStringRadix_nonempty: "toStringRadix r n \<noteq> []"
  by (subst toStringRadix.simps) simp

lemma toStringRadix_small: "n < r \<Longrightarrow> toStringRadix r n = [digitChars ! n]"
  by (subst toStringRadix.simps) simp

lemma toStringRadix_large:
  "2 \<le> r \<Longrightarrow> r \<le> n \<Longrightarrow>
   toStringRadix r n = toStringRadix r (n div r) @ [digitChars ! (n mod r)]"
  by (subst toStringRadix.simps) simp

lemma digitChars_mem: "k < r \<Longrightarrow> r \<le> 36 \<Longrightarrow> digitChars ! k \<in> set (take r digitChars)"
  using length_digitChars by (simp add: in_set_conv_nth) (metis nth_take)

lemma toStringRadix_digits:
  "2 \<le> r \<Longrightarrow> r \<le> 36 \<Longrightarrow> set (toStringRadix r n) \<subseteq> set (take r digitChars)"
proof (induction r n rule: toStringRadix.induct)
  case (1 radix n)
  show ?case
  proof (cases "radix \<le> n")
    case True
    have "n mod radix < radix" using "1.prems" by simp
    then have "digitChars ! (n mod radix) \<in> set (take radix digitChars)"
      using "1.prems" by (simp add: digitChars_mem)
    moreover have "set (toStringRadix radix (n div radix)) \<subseteq> set (take radix digitChars)"
      using "1.IH" "1.prems" True by simp
    ultimately show ?thesis
      using "1.prems" True by (simp add: toStringRadix_large)
  next
    case False
    then show ?thesis
      using "1.prems" by (simp add: toStringRadix_small digitChars_mem)
  qed
qed

lemma toStringRadix_length_large:
  assumes "2 \<le> r" "r \<le> n"
  shows "2 \<le> length (toStringRadix r n)"
proof -
  have "toStringRadix r n = toStringRadix r (n div r) @ [digitChars ! (n mod r)]"
    using assms by (rule toStringRadix_large)
  then have "length (toStringRadix r n) = Suc (length (toStringRadix r (n div r)))"
    by simp
  moreover have "0 < length (toStringRadix r (n div r))"
    using toStringRadix_nonempty [of r "n div r"] by simp
  ultimately show ?thesis by linarith
qed

lemma toStringRadix_inj:
  "2 \<le> r \<Longrightarrow> r \<le> 36 \<Longrightarrow> toStringRadix r n = toStringRadix r m \<Longrightarrow> n = m"
proof (induction r n arbitrary: m rule: toStringRadix.induct)
  case (1 radix n)
  have r: "2 \<le> radix" "radix \<le> 36" using "1.prems" by simp_all
  show ?case
  proof (cases "radix \<le> n")
    case n_large: True
    show ?thesis
    proof (cases "radix \<le> m")
      case True
      from "1.prems"(3) have eq:
        "toStringRadix radix (n div radix) = toStringRadix radix (m div radix)"
        "digitChars ! (n mod radix) = digitChars ! (m mod radix)"
        using r n_large True by (simp_all add: toStringRadix_large)
      have "n div radix = m div radix"
        using "1.IH" r n_large eq(1) by simp
      moreover have "n mod radix = m mod radix"
      proof (rule digitChars_inj)
        show "n mod radix < 36" using r by (simp add: less_le_trans [OF mod_less_divisor])
        show "m mod radix < 36" using r by (simp add: less_le_trans [OF mod_less_divisor])
        show "digitChars ! (n mod radix) = digitChars ! (m mod radix)" by (rule eq(2))
      qed
      ultimately show ?thesis
        by (metis div_mult_mod_eq)
    next
      case False
      then have "length (toStringRadix radix m) = 1"
        by (simp add: toStringRadix_small)
      moreover have "length (toStringRadix radix n) \<ge> 2"
        using r n_large by (simp add: toStringRadix_length_large)
      ultimately show ?thesis using "1.prems"(3) by simp
    qed
  next
    case n_small: False
    show ?thesis
    proof (cases "radix \<le> m")
      case True
      have "length (toStringRadix radix n) = 1"
        using n_small by (simp add: toStringRadix_small)
      moreover have "length (toStringRadix radix m) \<ge> 2"
        using r True by (simp add: toStringRadix_length_large)
      ultimately show ?thesis using "1.prems"(3) by simp
    next
      case False
      then have "digitChars ! n = digitChars ! m"
        using n_small "1.prems"(3) by (simp add: toStringRadix_small)
      then show ?thesis
        using n_small False r by (intro digitChars_inj) simp_all
    qed
  qed
qed

lemma digitChars_zero: "digitChars ! 0 = 0x30"
  by (simp add: digitChars_def lit_def)

lemma hexByte_eq:
  fixes b :: "8 word"
  shows "padStart 2 (lit ''0'') (toStringRadix 16 (unat b)) =
         [digitChars ! (unat b div 16), digitChars ! (unat b mod 16)]"
proof (cases "unat b < 16")
  case True
  then have "toStringRadix 16 (unat b) = [digitChars ! unat b]"
    by (rule toStringRadix_small)
  then show ?thesis
    using True by (simp add: padStart_def lit_def digitChars_zero)
next
  case False
  have "unat b < 256"
    using unsigned_less [of b] by simp
  then have hi: "unat b div 16 < 16"
    by simp
  have "toStringRadix 16 (unat b) =
        toStringRadix 16 (unat b div 16) @ [digitChars ! (unat b mod 16)]"
    using False by (intro toStringRadix_large) simp_all
  also have "toStringRadix 16 (unat b div 16) = [digitChars ! (unat b div 16)]"
    using hi by (rule toStringRadix_small)
  finally show ?thesis
    by (simp add: padStart_def)
qed

lemma hexByte_inj:
  fixes a b :: "8 word"
  assumes "padStart 2 (lit ''0'') (toStringRadix 16 (unat a)) =
           padStart 2 (lit ''0'') (toStringRadix 16 (unat b))"
  shows "a = b"
proof -
  have a: "unat a < 256" and b: "unat b < 256"
    using unsigned_less [of a] unsigned_less [of b] by simp_all
  from assms have eq:
    "digitChars ! (unat a div 16) = digitChars ! (unat b div 16)"
    "digitChars ! (unat a mod 16) = digitChars ! (unat b mod 16)"
    by (simp_all add: hexByte_eq)
  have "unat a div 16 = unat b div 16"
    using a b eq(1) by (intro digitChars_inj) simp_all
  moreover have "unat a mod 16 = unat b mod 16"
    using eq(2) by (intro digitChars_inj) simp_all
  ultimately have "unat a = unat b"
    by (metis div_mult_mod_eq)
  then show ?thesis
    by (simp add: word_unat_eq_iff)
qed

lemma hexByte_chars:
  fixes b :: "8 word"
  assumes "c \<in> set (padStart 2 (lit ''0'') (toStringRadix 16 (unat b)))"
  shows "isDigit c \<or> isLower c"
proof -
  have "unat b < 256"
    using unsigned_less [of b] by simp
  then have "unat b div 16 < 16"
    by simp
  then have hi: "isDigit (digitChars ! (unat b div 16)) \<or> isLower (digitChars ! (unat b div 16))"
    by (rule digitChars_hex)
  have lo: "isDigit (digitChars ! (unat b mod 16)) \<or> isLower (digitChars ! (unat b mod 16))"
    by (rule digitChars_hex) simp
  from assms have "c = digitChars ! (unat b div 16) \<or> c = digitChars ! (unat b mod 16)"
    by (simp add: hexByte_eq)
  then show ?thesis
    using hi lo by blast
qed

lemma hex_length:
  fixes bs :: "8 word list"
  shows "length (join (map (\<lambda>b. padStart 2 (lit ''0'') (toStringRadix 16 (unat b))) bs)) =
         2 * length bs"
  by (induction bs) (simp_all add: join_def hexByte_eq)

lemma hex_inj:
  fixes as bs :: "8 word list"
  shows "join (map (\<lambda>b. padStart 2 (lit ''0'') (toStringRadix 16 (unat b))) as) =
         join (map (\<lambda>b. padStart 2 (lit ''0'') (toStringRadix 16 (unat b))) bs) \<Longrightarrow>
         as = bs"
proof (induction as arbitrary: bs)
  case Nil
  then show ?case
    by (cases bs) (simp_all add: join_def hexByte_eq)
next
  case (Cons a as)
  show ?case
  proof (cases bs)
    case Nil
    with Cons.prems show ?thesis
      by (simp add: join_def hexByte_eq)
  next
    case (Cons b bs')
    from Cons.prems have
      "padStart 2 (lit ''0'') (toStringRadix 16 (unat a)) =
       padStart 2 (lit ''0'') (toStringRadix 16 (unat b))"
      and rest: "join (map (\<lambda>b. padStart 2 (lit ''0'') (toStringRadix 16 (unat b))) as) =
       join (map (\<lambda>b. padStart 2 (lit ''0'') (toStringRadix 16 (unat b))) bs')"
      unfolding Cons by (simp_all add: join_def hexByte_eq)
    then have "a = b"
      by (intro hexByte_inj)
    moreover have "as = bs'"
      using rest by (rule Cons.IH)
    ultimately show ?thesis
      using Cons by simp
  qed
qed

lemma hex_chars:
  fixes bs :: "8 word list"
  assumes "c \<in> set (join (map (\<lambda>b. padStart 2 (lit ''0'') (toStringRadix 16 (unat b))) bs))"
  shows "isDigit c \<or> isLower c"
  using assms hexByte_chars by (auto simp: join_def)

lemma decimal_chars: "c \<in> set (toStringRadix 10 n) \<Longrightarrow> isDigit c"
proof -
  assume "c \<in> set (toStringRadix 10 n)"
  then have "c \<in> set (take 10 digitChars)"
    using toStringRadix_digits [of 10 n] by auto
  then show "isDigit c"
    using decimal_digitChars by (simp add: list_all_iff)
qed

lemma hyphen_not_digit: "\<not> isDigit 0x2D"
  by (simp add: isDigit_def)

lemma decimal_not_hyphen: "toStringRadix 10 n \<noteq> 0x2D # cs"
proof
  assume eq: "toStringRadix 10 n = 0x2D # cs"
  then have "0x2D \<in> set (toStringRadix 10 n)"
    by simp
  then have "isDigit 0x2D"
    by (rule decimal_chars)
  then show False
    by (simp add: hyphen_not_digit)
qed

lemma numberToString_nonempty: "numberToString i \<noteq> []"
  by (simp add: numberToString_def toStringRadix_nonempty)

lemma numberToString_chars: "c \<in> set (numberToString i) \<Longrightarrow> isDigit c \<or> isHyphen c"
  by (auto simp: numberToString_def lit_def isHyphen_def dest: decimal_chars split: if_splits)

lemma numberToString_inj:
  assumes "numberToString i = numberToString j"
  shows "i = j"
proof (cases "i < 0")
  case i_neg: True
  show ?thesis
  proof (cases "j < 0")
    case True
    with i_neg assms have "toStringRadix 10 (nat (- i)) = toStringRadix 10 (nat (- j))"
      by (simp add: numberToString_def)
    then have "nat (- i) = nat (- j)"
      by (intro toStringRadix_inj [of 10]) simp_all
    then show ?thesis
      using i_neg True by simp
  next
    case False
    with i_neg assms have "toStringRadix 10 (nat j) = 0x2D # toStringRadix 10 (nat (- i))"
      by (simp add: numberToString_def lit_def)
    then show ?thesis
      by (simp add: decimal_not_hyphen)
  qed
next
  case i_pos: False
  show ?thesis
  proof (cases "j < 0")
    case True
    with i_pos assms have "toStringRadix 10 (nat i) = 0x2D # toStringRadix 10 (nat (- j))"
      by (simp add: numberToString_def lit_def)
    then show ?thesis
      by (simp add: decimal_not_hyphen)
  next
    case False
    with i_pos assms have "toStringRadix 10 (nat i) = toStringRadix 10 (nat j)"
      by (simp add: numberToString_def)
    then have "nat i = nat j"
      by (intro toStringRadix_inj [of 10]) simp_all
    then show ?thesis
      using i_pos False by simp
  qed
qed

lemma generateUsername_inj:
  assumes len: "length as = length bs"
    and eq: "generateUsername s as = generateUsername t bs"
  shows "s = t \<and> as = bs"
proof -
  let ?hex = "\<lambda>xs. join (map (\<lambda>b. padStart 2 (lit ''0'') (toStringRadix 16 (unat b))) xs)"
  have "length (?hex as) = length (?hex bs)"
    using len by (simp add: hex_length)
  then have split:
    "((numberToString s @ lit ''-'') @ ?hex as = (numberToString t @ lit ''-'') @ ?hex bs) =
     (numberToString s @ lit ''-'' = numberToString t @ lit ''-'' \<and> ?hex as = ?hex bs)"
    by (intro append_eq_append_conv disjI2)
  from eq have "(numberToString s @ lit ''-'') @ ?hex as = (numberToString t @ lit ''-'') @ ?hex bs"
    by (simp add: generateUsername_def)
  then have num: "numberToString s = numberToString t" and hex: "?hex as = ?hex bs"
    unfolding split by simp_all
  from num have "s = t"
    by (rule numberToString_inj)
  moreover from hex have "as = bs"
    by (rule hex_inj)
  ultimately show ?thesis
    by simp
qed

lemma ci_test_all: "list_all (\<lambda>c. isLower c \<or> isHyphen c) (lit ''ci-test-'')"
  by (simp add: lit_def isLower_def isHyphen_def)

lemma ci_test_chars: "c \<in> set (lit ''ci-test-'') \<Longrightarrow> isLower c \<or> isHyphen c"
  using ci_test_all by (simp add: list_all_iff)


lemma username_chars:
  assumes "c \<in> set (generateUsername timestamp randomHex)"
  shows "isLower c \<or> isDigit c \<or> isHyphen c"
proof -
  let ?hex = "join (map (\<lambda>b. padStart 2 (lit ''0'') (toStringRadix 16 (unat b))) randomHex)"
  from assms consider
      "c \<in> set (lit ''ci-test-'')"
    | "c \<in> set (numberToString timestamp)"
    | "c \<in> set (lit ''-'')"
    | "c \<in> set ?hex"
    by (auto simp: generateUsername_def)
  then show ?thesis
  proof cases
    case 1
    then show ?thesis using ci_test_chars by blast
  next
    case 2
    then show ?thesis using numberToString_chars by blast
  next
    case 3
    then show ?thesis by (simp add: lit_def isHyphen_def)
  next
    case 4
    then show ?thesis using hex_chars by blast
  qed
qed

section \<open>Properties of the generated username\<close>

text \<open>
  Claim C8. The formatting \<open>ci-test-{timestamp}-{hex}\<close> is injective in the pair
  (timestamp, two random bytes): any number of calls whose inputs are pairwise different
  return pairwise different usernames. (Two calls that read the same millisecond and the
  same two bytes return the same string.)
\<close>

theorem generateUsername_distinct:
  assumes "list_all (\<lambda>call. length (snd call) = 2) calls"
    and "distinct calls"
  shows "distinct (map (\<lambda>call. generateUsername (fst call) (snd call)) calls)"
proof -
  have "inj_on (\<lambda>call. generateUsername (fst call) (snd call)) (set calls)"
  proof (rule inj_onI)
    fix x y
    assume x: "x \<in> set calls" and y: "y \<in> set calls"
      and eq: "generateUsername (fst x) (snd x) = generateUsername (fst y) (snd y)"
    from x y assms(1) have "length (snd x) = length (snd y)"
      by (simp add: list_all_iff)
    then have "fst x = fst y \<and> snd x = snd y"
      using eq by (rule generateUsername_inj)
    then show "x = y"
      by (simp add: prod_eq_iff)
  qed
  with assms(2) show ?thesis
    by (simp add: distinct_map)
qed

theorem generateUsername_distinct_witness:
  "list_all (\<lambda>call. length (snd call) = 2)
     [(1719432000000, [0xA3, 0xF1]), (1719432000000, [0xA3, 0xF2]), (1719432000001, [0xA3, 0xF1])] \<and>
   distinct [(1719432000000 :: int, [0xA3, 0xF1 :: 8 word]), (1719432000000, [0xA3, 0xF2]),
     (1719432000001, [0xA3, 0xF1])] \<and>
   distinct (map (\<lambda>call. generateUsername (fst call) (snd call))
     [(1719432000000, [0xA3, 0xF1]), (1719432000000, [0xA3, 0xF2]), (1719432000001, [0xA3, 0xF1])])"
  using generateUsername_distinct
    [of "[(1719432000000, [0xA3, 0xF1]), (1719432000000, [0xA3, 0xF2]), (1719432000001, [0xA3, 0xF1])]"]
  by simp

lemma hex_alphabet: "take 16 digitChars = lit ''0123456789abcdef''"
  by (simp add: digitChars_def lit_def)

lemma digitChars_hex_alphabet: "k < 16 \<Longrightarrow> digitChars ! k = lit ''0123456789abcdef'' ! k"
  unfolding hex_alphabet [symmetric] by simp

lemma hexByte_alphabet:
  fixes b :: "8 word"
  shows "padStart 2 (lit ''0'') (toStringRadix 16 (unat b)) =
         [lit ''0123456789abcdef'' ! (unat b div 16), lit ''0123456789abcdef'' ! (unat b mod 16)]"
proof -
  have "unat b < 256"
    using unsigned_less [of b] by simp
  then have "unat b div 16 < 16"
    by simp
  then have "digitChars ! (unat b div 16) = lit ''0123456789abcdef'' ! (unat b div 16)"
    by (rule digitChars_hex_alphabet)
  moreover have "digitChars ! (unat b mod 16) = lit ''0123456789abcdef'' ! (unat b mod 16)"
    by (rule digitChars_hex_alphabet) simp
  ultimately show ?thesis
    by (simp add: hexByte_eq)
qed

text \<open>
  Claim C9, amended. Whatever the clock and the random source return, the username is the
  fixed prefix, the decimal reading of the clock, a hyphen and, for each random byte, its
  two lower-case hexadecimal digits (high digit first); it is not empty and consists only
  of lower-case ASCII letters, decimal digits and hyphens. The time component is the
  reading of \<open>Date.now()\<close>, the wall clock, as it is: nothing makes it monotonic.
\<close>

theorem generateUsername_charset:
  "generateUsername timestamp randomHex =
     lit ''ci-test-'' @ numberToString timestamp @ lit ''-'' @
     concat (map (\<lambda>b. [lit ''0123456789abcdef'' ! (unat b div 16),
                        lit ''0123456789abcdef'' ! (unat b mod 16)]) randomHex) \<and>
   length (concat (map (\<lambda>b. [lit ''0123456789abcdef'' ! (unat b div 16),
                        lit ''0123456789abcdef'' ! (unat b mod 16)]) randomHex)) =
     2 * length randomHex \<and>
   generateUsername timestamp randomHex \<noteq> [] \<and>
   list_all (\<lambda>c. isLower c \<or> isDigit c \<or> isHyphen c) (generateUsername timestamp randomHex)"
proof (intro conjI)
  show "generateUsername timestamp randomHex =
     lit ''ci-test-'' @ numberToString timestamp @ lit ''-'' @
     concat (map (\<lambda>b. [lit ''0123456789abcdef'' ! (unat b div 16),
                        lit ''0123456789abcdef'' ! (unat b mod 16)]) randomHex)"
    by (simp add: generateUsername_def join_def hexByte_alphabet)
  show "length (concat (map (\<lambda>b. [lit ''0123456789abcdef'' ! (unat b div 16),
                        lit ''0123456789abcdef'' ! (unat b mod 16)]) randomHex)) =
     2 * length randomHex"
    by (induction randomHex) simp_all
  show "generateUsername timestamp randomHex \<noteq> []"
    by (simp add: generateUsername_def lit_def)
  show "list_all (\<lambda>c. isLower c \<or> isDigit c \<or> isHyphen c) (generateUsername timestamp randomHex)"
    using username_chars by (simp add: list_all_iff)
qed

theorem generateUsername_charset_witness:
  "generateUsername 1719432000000 [0xA3, 0xF6] = lit ''ci-test-1719432000000-a3f6'' \<and>
   list_all (\<lambda>c. isLower c \<or> isDigit c \<or> isHyphen c) (lit ''ci-test-1719432000000-a3f6'')"
proof -
  have num: "numberToString 1719432000000 = lit ''1719432000000''"
    by (simp add: numberToString_def toStringRadix.simps lit_def digitChars_def)
  have cat: "lit ''ci-test-'' @ lit ''1719432000000'' @ lit ''-'' @
      concat (map (\<lambda>b :: 8 word. [lit ''0123456789abcdef'' ! (unat b div 16),
                        lit ''0123456789abcdef'' ! (unat b mod 16)]) [0xA3, 0xF6]) =
      lit ''ci-test-1719432000000-a3f6''"
    by (simp add: lit_def)
  have shape: "generateUsername 1719432000000 [0xA3, 0xF6] =
      lit ''ci-test-'' @ numberToString 1719432000000 @ lit ''-'' @
      concat (map (\<lambda>b :: 8 word. [lit ''0123456789abcdef'' ! (unat b div 16),
                        lit ''0123456789abcdef'' ! (unat b mod 16)]) [0xA3, 0xF6])"
    by (rule generateUsername_charset [THEN conjunct1])
  have chars: "list_all (\<lambda>c. isLower c \<or> isDigit c \<or> isHyphen c)
      (generateUsername 1719432000000 [0xA3, 0xF6])"
    by (rule generateUsername_charset [THEN conjunct2, THEN conjunct2, THEN conjunct2])
  have eq: "generateUsername 1719432000000 [0xA3, 0xF6] = lit ''ci-test-1719432000000-a3f6''"
    unfolding shape num cat by (rule refl)
  from chars have "list_all (\<lambda>c. isLower c \<or> isDigit c \<or> isHyphen c)
      (lit ''ci-test-1719432000000-a3f6'')"
    unfolding eq .
  with eq show ?thesis
    by (rule conjI)
qed

text \<open>
  The claim as stated fails: the time component is not monotonic. When the wall clock is
  set back between two calls, the first reading 10 and the second reading 9, the second
  username carries the smaller time component.
\<close>

theorem generateUsername_clock_counterexample:
  "(9 :: int) < 10 \<and>
   generateUsername 10 [0xA3, 0xF6] = lit ''ci-test-'' @ lit ''10'' @ lit ''-a3f6'' \<and>
   generateUsername 9 [0x01, 0xB2] = lit ''ci-test-'' @ lit ''9'' @ lit ''-01b2''"
  by (simp add: generateUsername_def numberToString_def toStringRadix.simps padStart_def
      join_def lit_def digitChars_def)

section \<open>Properties of the generated password\<close>

lemma length_alphanumeric: "length alphanumeric = 62"
  by (simp add: alphanumeric_def lit_def)

lemma alphanumeric_all: "list_all isAlphanumeric alphanumeric"
  by (simp add: alphanumeric_def lit_def isAlphanumeric_def isUpper_def isLower_def isDigit_def)

lemma alphanumeric_nth: "isAlphanumeric (alphanumeric ! (n mod length alphanumeric))"
proof -
  have "n mod length alphanumeric < length alphanumeric"
    by (simp add: length_alphanumeric)
  then show ?thesis
    using alphanumeric_all by (simp only: list_all_length)
qed

lemma suffix_alphanumeric:
  "list_all isAlphanumeric
     (join (map (\<lambda>b :: 8 word. [alphanumeric ! (unat b mod length alphanumeric)]) randomBytes))"
  by (induction randomBytes) (simp_all add: join_def alphanumeric_nth)

lemma suffix_length:
  "length (join (map (\<lambda>b :: 8 word. [alphanumeric ! (unat b mod length alphanumeric)]) randomBytes)) =
   length randomBytes"
  by (induction randomBytes) (simp_all add: join_def)

lemma prefix_policy:
  "length (lit ''CiTest1!'') = 8"
  "list_ex isUpper (lit ''CiTest1!'')"
  "list_ex isLower (lit ''CiTest1!'')"
  "list_ex isDigit (lit ''CiTest1!'')"
  "list_ex (\<lambda>c. \<not> isAlphanumeric c) (lit ''CiTest1!'')"
  by (simp_all add: lit_def isAlphanumeric_def isUpper_def isLower_def isDigit_def)

text \<open>
  Claim C2. For every value of the eight random bytes, the password is the fixed prefix
  \<open>CiTest1!\<close> followed by eight alphanumeric characters; it has at least 8 characters
  (16 exactly) and contains an upper-case letter, a lower-case letter, a digit and a
  character that is not alphanumeric.
\<close>

theorem generatePassword_policy:
  assumes "length randomBytes = 8"
  shows "(\<exists>suffix. generatePassword randomBytes = lit ''CiTest1!'' @ suffix \<and>
            length suffix = 8 \<and> list_all isAlphanumeric suffix) \<and>
         8 \<le> length (generatePassword randomBytes) \<and>
         list_ex isUpper (generatePassword randomBytes) \<and>
         list_ex isLower (generatePassword randomBytes) \<and>
         list_ex isDigit (generatePassword randomBytes) \<and>
         list_ex (\<lambda>c. \<not> isAlphanumeric c) (generatePassword randomBytes)"
proof -
  define suffix where
    "suffix = join (map (\<lambda>b :: 8 word. [alphanumeric ! (unat b mod length alphanumeric)]) randomBytes)"
  have pw: "generatePassword randomBytes = lit ''CiTest1!'' @ suffix"
    by (simp add: generatePassword_def suffix_def)
  have "length suffix = 8"
    using assms by (simp add: suffix_def suffix_length)
  moreover have "list_all isAlphanumeric suffix"
    unfolding suffix_def by (rule suffix_alphanumeric)
  ultimately have "\<exists>suffix. generatePassword randomBytes = lit ''CiTest1!'' @ suffix \<and>
      length suffix = 8 \<and> list_all isAlphanumeric suffix"
    using pw by blast
  then show ?thesis
    unfolding pw by (simp add: prefix_policy)
qed

theorem generatePassword_policy_witness:
  "length [0, 1, 2, 3, 255, 254, 62, 61 :: 8 word] = 8 \<and>
   generatePassword [0, 1, 2, 3, 255, 254, 62, 61] = lit ''CiTest1!ABCDHGA9'' \<and>
   list_ex isUpper (generatePassword [0, 1, 2, 3, 255, 254, 62, 61]) \<and>
   list_ex isLower (generatePassword [0, 1, 2, 3, 255, 254, 62, 61]) \<and>
   list_ex isDigit (generatePassword [0, 1, 2, 3, 255, 254, 62, 61]) \<and>
   list_ex (\<lambda>c. \<not> isAlphanumeric c) (generatePassword [0, 1, 2, 3, 255, 254, 62, 61])"
proof -
  have len: "length [0, 1, 2, 3, 255, 254, 62, 61 :: 8 word] = 8"
    by simp
  have "generatePassword [0, 1, 2, 3, 255, 254, 62, 61] = lit ''CiTest1!ABCDHGA9''"
    by (simp add: generatePassword_def alphanumeric_def join_def lit_def)
  then show ?thesis
    using generatePassword_policy [OF len] by simp
qed

section \<open>Properties of the generated email\<close>


lemma backtrack_sound:
  "backtrack k rest tail = Some captured \<Longrightarrow>
   \<exists>j. 0 < j \<and> j \<le> k \<and> captured = take j rest \<and> drop j rest = tail"
proof (induction k)
  case 0
  then show ?case by simp
next
  case (Suc k)
  show ?case
  proof (cases "drop (Suc k) rest = tail")
    case True
    with Suc.prems have "captured = take (Suc k) rest"
      by simp
    with True show ?thesis
      by blast
  next
    case False
    with Suc.prems have "backtrack k rest tail = Some captured"
      by simp
    then obtain j where "0 < j" "j \<le> k" "captured = take j rest" "drop j rest = tail"
      using Suc.IH by blast
    then show ?thesis
      using le_Suc_eq by blast
  qed
qed


lemma emailPatternMatch_generateEmail:
  "emailPatternMatch (generateEmail token) =
     backtrack (length (takeWhile dotMatches (token @ lit ''@test.example.com'')))
       (token @ lit ''@test.example.com'') (lit ''@test.example.com'')"
  by (simp add: emailPatternMatch_def generateEmail_def length_lit Let_def)


lemma take_within_takeWhile:
  "j \<le> length (takeWhile P xs) \<Longrightarrow> list_all P (take j xs)"
proof (induction xs arbitrary: j)
  case Nil
  then show ?case by simp
next
  case (Cons x xs)
  then show ?case
    by (cases j) (simp_all split: if_splits)
qed

lemma emailPatternMatch_only_clean:
  assumes "emailPatternMatch (generateEmail token) = Some captured"
  shows "captured = token \<and> token \<noteq> [] \<and> list_all dotMatches token"
proof -
  let ?tail = "lit ''@test.example.com''"
  let ?rest = "token @ ?tail"
  from assms obtain j where j: "0 < j" "j \<le> length (takeWhile dotMatches ?rest)"
    and cap: "captured = take j ?rest" and tl: "drop j ?rest = ?tail"
    unfolding emailPatternMatch_generateEmail using backtrack_sound by blast
  have "length (takeWhile dotMatches ?rest) \<le> length ?rest"
    by (rule length_takeWhile_le)
  with j(2) have "j \<le> length ?rest"
    by simp
  moreover from tl have "length ?rest - j = length ?tail"
    by (metis length_drop)
  ultimately have "j = length token"
    by simp
  with cap have "captured = token"
    by simp
  moreover have "token \<noteq> []"
    using j(1) \<open>j = length token\<close> by auto
  moreover have "list_all dotMatches token"
    using take_within_takeWhile [OF j(2)] \<open>j = length token\<close> by simp
  ultimately show ?thesis
    by simp
qed




section \<open>From the username to the email\<close>

lemma indexOf_prefix: "pat \<noteq> [] \<Longrightarrow> indexOf (pat @ rest) pat = Some 0"
  by (cases pat) simp_all

lemma replace_prefix: "pat \<noteq> [] \<Longrightarrow> replace (pat @ rest) pat [] = rest"
  by (simp add: replace_def indexOf_prefix)

lemma indexOf_absent:
  assumes "c \<in> set pat" and "c \<notin> set s"
  shows "indexOf s pat = None"
  using assms(2)
proof (induction s)
  case Nil
  with assms(1) show ?case by auto
next
  case (Cons x xs)
  have "take (length pat) (x # xs) \<noteq> pat"
  proof
    assume "take (length pat) (x # xs) = pat"
    then have "set pat \<subseteq> set (x # xs)"
      by (metis set_take_subset)
    with assms(1) Cons.prems show False
      by auto
  qed
  with Cons show ?case
    by simp
qed

lemma hex_digitChars_no_t: "0x74 \<notin> set (take 16 digitChars)"
  by (simp add: digitChars_def lit_def)

lemma hexByte_no_t:
  fixes b :: "8 word"
  shows "0x74 \<notin> set (padStart 2 (lit ''0'') (toStringRadix 16 (unat b)))"
proof -
  have "unat b < 256"
    using unsigned_less [of b] by simp
  then have "unat b div 16 < 16"
    by simp
  then have "digitChars ! (unat b div 16) \<in> set (take 16 digitChars)"
    by (simp add: digitChars_mem)
  moreover have "digitChars ! (unat b mod 16) \<in> set (take 16 digitChars)"
    by (simp add: digitChars_mem)
  ultimately show ?thesis
    using hex_digitChars_no_t by (auto simp: hexByte_eq)
qed

lemma remainder_no_t:
  "0x74 \<notin> set (numberToString timestamp @ lit ''-'' @
      join (map (\<lambda>b :: 8 word. padStart 2 (lit ''0'') (toStringRadix 16 (unat b))) randomHex))"
proof -
  have "0x74 \<notin> set (numberToString timestamp)"
    using numberToString_chars [of "0x74" timestamp] by (auto simp: isDigit_def isHyphen_def)
  moreover have "0x74 \<notin> set (lit ''-'')"
    by (simp add: lit_def)
  moreover have "0x74 \<notin> set (join (map (\<lambda>b :: 8 word. padStart 2 (lit ''0'') (toStringRadix 16 (unat b))) randomHex))"
    using hexByte_no_t by (simp add: join_def)
  ultimately show ?thesis
    by simp
qed

lemma ci_test_has_t: "0x74 \<in> set (lit ''ci-test-'')"
  by (simp add: lit_def)

lemma ci_test_nonempty: "lit ''ci-test-'' \<noteq> []"
  by (simp add: lit_def)

lemma uniqueId_eq:
  "replace (generateUsername timestamp randomHex) (lit ''ci-test-'') [] =
   numberToString timestamp @ lit ''-'' @
     join (map (\<lambda>b. padStart 2 (lit ''0'') (toStringRadix 16 (unat b))) randomHex)"
  unfolding generateUsername_def Let_def using ci_test_nonempty by (rule replace_prefix)

lemma email_of_username:
  "generateEmail (replace (generateUsername timestamp randomHex) (lit ''ci-test-'') []) =
   generateUsername timestamp randomHex @ lit ''@test.example.com''"
  unfolding uniqueId_eq by (simp add: generateEmail_def generateUsername_def)

text \<open>
  Claim C10. Inside the provisioning function the unique token is the username with the
  first occurrence of \<open>ci-test-\<close> replaced by nothing. The username begins with that
  prefix, so the token is the rest of it (timestamp, hyphen, hexadecimal digits), the
  rest does not contain the prefix again, and the email built from the token is the whole
  username followed by \<open>@test.example.com\<close>.
\<close>

theorem generateEmail_of_stripped_username:
  "replace (generateUsername timestamp randomHex) (lit ''ci-test-'') [] =
     drop (length (lit ''ci-test-'')) (generateUsername timestamp randomHex) \<and>
   take (length (lit ''ci-test-'')) (generateUsername timestamp randomHex) = lit ''ci-test-'' \<and>
   indexOf (replace (generateUsername timestamp randomHex) (lit ''ci-test-'') []) (lit ''ci-test-'') = None \<and>
   generateEmail (replace (generateUsername timestamp randomHex) (lit ''ci-test-'') []) =
     generateUsername timestamp randomHex @ lit ''@test.example.com''"
proof (intro conjI)
  show "replace (generateUsername timestamp randomHex) (lit ''ci-test-'') [] =
     drop (length (lit ''ci-test-'')) (generateUsername timestamp randomHex)"
    unfolding uniqueId_eq by (simp add: generateUsername_def)
  show "take (length (lit ''ci-test-'')) (generateUsername timestamp randomHex) = lit ''ci-test-''"
    by (simp add: generateUsername_def)
  show "indexOf (replace (generateUsername timestamp randomHex) (lit ''ci-test-'') []) (lit ''ci-test-'') = None"
    unfolding uniqueId_eq using ci_test_has_t remainder_no_t by (rule indexOf_absent)
  show "generateEmail (replace (generateUsername timestamp randomHex) (lit ''ci-test-'') []) =
     generateUsername timestamp randomHex @ lit ''@test.example.com''"
    by (rule email_of_username)
qed

section \<open>The provisioning function\<close>

text \<open>The bytes a run draws, and what the generators return in the world of the mocks.\<close>

lemma getRandomValues_2: "getRandomValues w 0 2 = [randomSource w 0, randomSource w 1]"
  by (simp add: getRandomValues_def upt_rec)

lemma getRandomValues_8:
  "getRandomValues w 2 8 =
     [randomSource w 2, randomSource w 3, randomSource w 4, randomSource w 5,
      randomSource w 6, randomSource w 7, randomSource w 8, randomSource w 9]"
  by (simp add: getRandomValues_def upt_rec)

lemma mock_bytes_2:
  "getRandomValues (mockWorld cfg send) 0 2 = [0xA3, 0xF6]"
  by (simp add: getRandomValues_2 mockWorld_def)

lemma mock_bytes_8:
  "getRandomValues (mockWorld cfg send) 2 8 = [73, 156, 239, 66, 149, 232, 59, 142]"
  by (simp add: getRandomValues_8 mockWorld_def)

lemma username_a3f6:
  "generateUsername 1719432000000 [0xA3, 0xF6] = lit ''ci-test-1719432000000-a3f6''"
  by (simp add: generateUsername_def numberToString_def
      toStringRadix.simps padStart_def join_def lit_def digitChars_def)

lemma password_mock:
  "generatePassword [73, 156, 239, 66, 149, 232, 59, 142] = lit ''CiTest1!Lg1EZu7S''"
  by (simp add: generatePassword_def alphanumeric_def join_def lit_def)

lemma falsy_iff: "falsy x = (x = None \<or> x = Some [])"
  by (cases x) (simp_all add: falsy_def)

lemma createTestUser_configured:
  assumes "amplifyconfig w ''aws_user_pools_id'' = Some userPoolId" and "userPoolId \<noteq> []"
    and "amplifyconfig w ''aws_user_pools_web_client_id'' = Some clientId" and "clientId \<noteq> []"
    and "amplifyconfig w ''aws_cognito_region'' = Some region" and "region \<noteq> []"
    and "email = generateEmail (replace (generateUsername (clock w) (getRandomValues w 0 2)) (lit ''ci-test-'') [])"
    and "pw = generatePassword (getRandomValues w 2 8)"
    and "started =
          [DateNow, GetRandomValues 2, GetRandomValues 8,
           ConsoleLog [Str (lit [CHR 0x0A] @ keySymbol @ lit '' Creating test user: '' @ email)],
           NewCognitoClient region,
           Send (SignUpCommand clientId email pw [(lit ''email'', email)])]"
  shows "createTestUser w =
     (case cognitoSend w (SignUpCommand clientId email pw [(lit ''email'', email)]) of
        Inl error \<Rightarrow>
          (started @ [ConsoleError [Str failureMarker, errorArg error]], Inl (ProcessExit 1))
      | Inr _ \<Rightarrow>
          (case cognitoSend w (AdminConfirmSignUpCommand userPoolId email) of
             Inl error \<Rightarrow>
               (started @
                  [ConsoleLog [Str (checkMark @ lit '' SignUp succeeded'')],
                   Send (AdminConfirmSignUpCommand userPoolId email),
                   ConsoleError [Str failureMarker, errorArg error]],
                Inl (ProcessExit 1))
           | Inr _ \<Rightarrow>
               (started @
                  [ConsoleLog [Str (checkMark @ lit '' SignUp succeeded'')],
                   Send (AdminConfirmSignUpCommand userPoolId email),
                   ConsoleLog [Str (checkMark @ lit '' AdminConfirmSignUp succeeded'')]],
                Inr \<lparr>username = email, password = pw\<rparr>)))"
  using assms(1-6) unfolding assms(7-9) createTestUser_def Let_def
  by (simp add: falsy_iff split: sum.split)

lemma lit_append: "lit (a @ b) = lit a @ lit b"
  by (simp add: lit_def)

text \<open>
  Claim C4. When the pool identifier or the client identifier is missing or empty, the
  run consists of one line on standard error that names the first such field, and the
  exit with status 1: the clock and the random source are not read, no client is
  constructed and no command is sent.
\<close>

theorem createTestUser_missing_identifier:
  assumes "falsy (amplifyconfig w ''aws_user_pools_id'') \<or>
           falsy (amplifyconfig w ''aws_user_pools_web_client_id'')"
  shows "createTestUser w =
           ([ConsoleError
               [Str (crossMark @ lit '' Missing '' @
                     lit (if falsy (amplifyconfig w ''aws_user_pools_id'')
                          then ''aws_user_pools_id'' else ''aws_user_pools_web_client_id'') @
                     lit '' in Amplify configuration'')]],
            Inl (ProcessExit 1))"
proof (cases "falsy (amplifyconfig w ''aws_user_pools_id'')")
  case True
  then show ?thesis
    by (simp add: createTestUser_def lit_append [symmetric])
next
  case False
  with assms have "falsy (amplifyconfig w ''aws_user_pools_web_client_id'')"
    by simp
  with False show ?thesis
    by (simp add: createTestUser_def lit_append [symmetric])
qed

theorem createTestUser_missing_identifier_witness:
  "falsy ((mockConfig(''aws_user_pools_id'' := None)) ''aws_user_pools_id'') \<and>
   createTestUser (mockWorld (mockConfig(''aws_user_pools_id'' := None)) sendResolves) =
     ([ConsoleError [Str (crossMark @ lit '' Missing aws_user_pools_id in Amplify configuration'')]],
      Inl (ProcessExit 1)) \<and>
   falsy ((mockConfig(''aws_user_pools_web_client_id'' \<mapsto> [])) ''aws_user_pools_web_client_id'') \<and>
   createTestUser (mockWorld (mockConfig(''aws_user_pools_web_client_id'' \<mapsto> [])) sendResolves) =
     ([ConsoleError
         [Str (crossMark @ lit '' Missing aws_user_pools_web_client_id in Amplify configuration'')]],
      Inl (ProcessExit 1))"
  using createTestUser_missing_identifier
      [of "mockWorld (mockConfig(''aws_user_pools_id'' := None)) sendResolves"]
    createTestUser_missing_identifier
      [of "mockWorld (mockConfig(''aws_user_pools_web_client_id'' \<mapsto> [])) sendResolves"]
  by (simp add: mockWorld_def mockConfig_def falsy_def lit_def)

lemma mock_email:
  "generateEmail (replace (generateUsername (clock (mockWorld cfg send))
      (getRandomValues (mockWorld cfg send) 0 2)) (lit ''ci-test-'') []) =
   lit ''ci-test-1719432000000-a3f6@test.example.com''"
proof -
  have "clock (mockWorld cfg send) = 1719432000000"
    by (simp add: mockWorld_def)
  then have "generateUsername (clock (mockWorld cfg send)) (getRandomValues (mockWorld cfg send) 0 2) =
      lit ''ci-test-1719432000000-a3f6''"
    by (simp add: mock_bytes_2 username_a3f6)
  then show ?thesis
    unfolding email_of_username by (simp add: lit_def)
qed

lemma mock_pw:
  "generatePassword (getRandomValues (mockWorld cfg send) 2 8) = lit ''CiTest1!Lg1EZu7S''"
  unfolding mock_bytes_8 by (rule password_mock)

lemma mock_fields:
  "amplifyconfig (mockWorld mockConfig send) ''aws_user_pools_id'' = Some (lit ''us-east-1_TestPool'')"
  "amplifyconfig (mockWorld mockConfig send) ''aws_user_pools_web_client_id'' =
     Some (lit ''test-client-id-123'')"
  "amplifyconfig (mockWorld mockConfig send) ''aws_cognito_region'' = Some (lit ''us-east-1'')"
  by (simp_all add: mockWorld_def mockConfig_def)

lemma mock_fields_nonempty:
  "lit ''us-east-1_TestPool'' \<noteq> []" "lit ''test-client-id-123'' \<noteq> []" "lit ''us-east-1'' \<noteq> []"
  by (simp_all add: lit_def)

text \<open>
  Claim C5. With the three configuration fields present, when the provider rejects the
  registration the run logs the fixed marker followed by the message of the error (the
  thrown value itself when it is not an \<open>Error\<close>) on standard error and exits with
  status 1. The registration is the only command sent: it is sent once and no
  confirmation follows.
\<close>

theorem createTestUser_signUp_rejected:
  assumes "amplifyconfig w ''aws_user_pools_id'' = Some userPoolId" and "userPoolId \<noteq> []"
    and "amplifyconfig w ''aws_user_pools_web_client_id'' = Some clientId" and "clientId \<noteq> []"
    and "amplifyconfig w ''aws_cognito_region'' = Some region" and "region \<noteq> []"
    and "email = generateEmail (replace (generateUsername (clock w) (getRandomValues w 0 2)) (lit ''ci-test-'') [])"
    and "pw = generatePassword (getRandomValues w 2 8)"
    and "cognitoSend w (SignUpCommand clientId email pw [(lit ''email'', email)]) = Inl error"
  shows "createTestUser w =
           ([DateNow, GetRandomValues 2, GetRandomValues 8,
             ConsoleLog [Str (lit [CHR 0x0A] @ keySymbol @ lit '' Creating test user: '' @ email)],
             NewCognitoClient region,
             Send (SignUpCommand clientId email pw [(lit ''email'', email)]),
             ConsoleError
               [Str (crossMark @ lit '' Failed to create test user:''),
                case error of ErrorInstance message \<Rightarrow> Str message | OtherValue v \<Rightarrow> Raw v]],
            Inl (ProcessExit 1)) \<and>
         sent (fst (createTestUser w)) = [SignUpCommand clientId email pw [(lit ''email'', email)]]"
  unfolding createTestUser_configured [OF assms(1-8) refl]
  by (simp add: assms(9) failureMarker_def errorArg_def)

theorem createTestUser_signUp_rejected_witness:
  "createTestUser (mockWorld mockConfig signUpRejects) =
     ([DateNow, GetRandomValues 2, GetRandomValues 8,
       ConsoleLog [Str (lit [CHR 0x0A] @ keySymbol @
         lit '' Creating test user: '' @ lit ''ci-test-1719432000000-a3f6@test.example.com'')],
       NewCognitoClient (lit ''us-east-1''),
       Send (SignUpCommand (lit ''test-client-id-123'')
         (lit ''ci-test-1719432000000-a3f6@test.example.com'') (lit ''CiTest1!Lg1EZu7S'')
         [(lit ''email'', lit ''ci-test-1719432000000-a3f6@test.example.com'')]),
       ConsoleError [Str (crossMark @ lit '' Failed to create test user:''),
         Str (lit ''User already exists'')]],
      Inl (ProcessExit 1))"
proof -
  let ?w = "mockWorld mockConfig signUpRejects"
  have rej: "cognitoSend ?w (SignUpCommand (lit ''test-client-id-123'')
      (lit ''ci-test-1719432000000-a3f6@test.example.com'') (lit ''CiTest1!Lg1EZu7S'')
      [(lit ''email'', lit ''ci-test-1719432000000-a3f6@test.example.com'')]) =
      Inl (ErrorInstance (lit ''User already exists''))"
    by (simp add: mockWorld_def signUpRejects_def)
  show ?thesis
    using createTestUser_signUp_rejected
      [OF mock_fields(1) mock_fields_nonempty(1) mock_fields(2) mock_fields_nonempty(2)
        mock_fields(3) mock_fields_nonempty(3) mock_email [symmetric] mock_pw [symmetric] rej]
    by simp
qed

text \<open>
  Claim C6. When the registration succeeds and the provider rejects the confirmation, the
  run ends as for a rejected registration: the fixed marker and the message of the error
  on standard error, then the exit with status 1. The commands sent are the registration
  and the confirmation, each once, and nothing is sent after the rejection: no deletion,
  no retry.
\<close>

theorem createTestUser_confirm_rejected:
  assumes "amplifyconfig w ''aws_user_pools_id'' = Some userPoolId" and "userPoolId \<noteq> []"
    and "amplifyconfig w ''aws_user_pools_web_client_id'' = Some clientId" and "clientId \<noteq> []"
    and "amplifyconfig w ''aws_cognito_region'' = Some region" and "region \<noteq> []"
    and "email = generateEmail (replace (generateUsername (clock w) (getRandomValues w 0 2)) (lit ''ci-test-'') [])"
    and "pw = generatePassword (getRandomValues w 2 8)"
    and "cognitoSend w (SignUpCommand clientId email pw [(lit ''email'', email)]) = Inr ()"
    and "cognitoSend w (AdminConfirmSignUpCommand userPoolId email) = Inl error"
  shows "createTestUser w =
           ([DateNow, GetRandomValues 2, GetRandomValues 8,
             ConsoleLog [Str (lit [CHR 0x0A] @ keySymbol @ lit '' Creating test user: '' @ email)],
             NewCognitoClient region,
             Send (SignUpCommand clientId email pw [(lit ''email'', email)]),
             ConsoleLog [Str (checkMark @ lit '' SignUp succeeded'')],
             Send (AdminConfirmSignUpCommand userPoolId email),
             ConsoleError
               [Str (crossMark @ lit '' Failed to create test user:''),
                case error of ErrorInstance message \<Rightarrow> Str message | OtherValue v \<Rightarrow> Raw v]],
            Inl (ProcessExit 1)) \<and>
         sent (fst (createTestUser w)) =
           [SignUpCommand clientId email pw [(lit ''email'', email)],
            AdminConfirmSignUpCommand userPoolId email]"
  unfolding createTestUser_configured [OF assms(1-8) refl]
  by (simp add: assms(9,10) failureMarker_def errorArg_def)

theorem createTestUser_confirm_rejected_witness:
  "createTestUser (mockWorld mockConfig confirmRejects) =
     ([DateNow, GetRandomValues 2, GetRandomValues 8,
       ConsoleLog [Str (lit [CHR 0x0A] @ keySymbol @
         lit '' Creating test user: '' @ lit ''ci-test-1719432000000-a3f6@test.example.com'')],
       NewCognitoClient (lit ''us-east-1''),
       Send (SignUpCommand (lit ''test-client-id-123'')
         (lit ''ci-test-1719432000000-a3f6@test.example.com'') (lit ''CiTest1!Lg1EZu7S'')
         [(lit ''email'', lit ''ci-test-1719432000000-a3f6@test.example.com'')]),
       ConsoleLog [Str (checkMark @ lit '' SignUp succeeded'')],
       Send (AdminConfirmSignUpCommand (lit ''us-east-1_TestPool'')
         (lit ''ci-test-1719432000000-a3f6@test.example.com'')),
       ConsoleError [Str (crossMark @ lit '' Failed to create test user:''),
         Str (lit ''User cannot be confirmed'')]],
      Inl (ProcessExit 1))"
proof -
  let ?w = "mockWorld mockConfig confirmRejects"
  have ok: "cognitoSend ?w (SignUpCommand (lit ''test-client-id-123'')
      (lit ''ci-test-1719432000000-a3f6@test.example.com'') (lit ''CiTest1!Lg1EZu7S'')
      [(lit ''email'', lit ''ci-test-1719432000000-a3f6@test.example.com'')]) = Inr ()"
    by (simp add: mockWorld_def confirmRejects_def)
  have rej: "cognitoSend ?w (AdminConfirmSignUpCommand (lit ''us-east-1_TestPool'')
      (lit ''ci-test-1719432000000-a3f6@test.example.com'')) =
      Inl (ErrorInstance (lit ''User cannot be confirmed''))"
    by (simp add: mockWorld_def confirmRejects_def)
  show ?thesis
    using createTestUser_confirm_rejected
      [OF mock_fields(1) mock_fields_nonempty(1) mock_fields(2) mock_fields_nonempty(2)
        mock_fields(3) mock_fields_nonempty(3) mock_email [symmetric] mock_pw [symmetric] ok rej]
    by simp
qed

text \<open>
  Claim C1. With the three configuration fields present and not empty, when the provider
  accepts the registration and the confirmation, the run returns the credentials
  \<open>{ username: email, password }\<close>: the email is \<open>ci-test-\<close>, the token, and
  \<open>@test.example.com\<close>, where the token is the generated username without its prefix;
  the password is the generated one; and the same email is the \<open>Username\<close> of both
  commands and the \<open>username\<close> returned.
\<close>

theorem createTestUser_success:
  assumes "amplifyconfig w ''aws_user_pools_id'' = Some userPoolId" and "userPoolId \<noteq> []"
    and "amplifyconfig w ''aws_user_pools_web_client_id'' = Some clientId" and "clientId \<noteq> []"
    and "amplifyconfig w ''aws_cognito_region'' = Some region" and "region \<noteq> []"
    and "token = replace (generateUsername (clock w) (getRandomValues w 0 2)) (lit ''ci-test-'') []"
    and "email = generateEmail token"
    and "pw = generatePassword (getRandomValues w 2 8)"
    and "cognitoSend w (SignUpCommand clientId email pw [(lit ''email'', email)]) = Inr ()"
    and "cognitoSend w (AdminConfirmSignUpCommand userPoolId email) = Inr ()"
  shows "snd (createTestUser w) = Inr \<lparr>username = email, password = pw\<rparr> \<and>
         email = lit ''ci-test-'' @ token @ lit ''@test.example.com'' \<and>
         lit ''ci-test-'' @ token = generateUsername (clock w) (getRandomValues w 0 2) \<and>
         sent (fst (createTestUser w)) =
           [SignUpCommand clientId email pw [(lit ''email'', email)],
            AdminConfirmSignUpCommand userPoolId email] \<and>
         map Username (sent (fst (createTestUser w))) = [email, email]"
proof -
  have email: "email = generateEmail (replace (generateUsername (clock w) (getRandomValues w 0 2)) (lit ''ci-test-'') [])"
    using assms(7,8) by simp
  have run: "createTestUser w =
      ([DateNow, GetRandomValues 2, GetRandomValues 8,
        ConsoleLog [Str (lit [CHR 0x0A] @ keySymbol @ lit '' Creating test user: '' @ email)],
        NewCognitoClient region,
        Send (SignUpCommand clientId email pw [(lit ''email'', email)]),
        ConsoleLog [Str (checkMark @ lit '' SignUp succeeded'')],
        Send (AdminConfirmSignUpCommand userPoolId email),
        ConsoleLog [Str (checkMark @ lit '' AdminConfirmSignUp succeeded'')]],
       Inr \<lparr>username = email, password = pw\<rparr>)"
    unfolding createTestUser_configured [OF assms(1-6) email assms(9) refl]
    by (simp add: assms(10,11))
  have "email = lit ''ci-test-'' @ token @ lit ''@test.example.com''"
    unfolding assms(8) by (simp add: generateEmail_def)
  moreover have "lit ''ci-test-'' @ token = generateUsername (clock w) (getRandomValues w 0 2)"
    unfolding assms(7) uniqueId_eq by (simp add: generateUsername_def)
  ultimately show ?thesis
    unfolding run by simp
qed

theorem createTestUser_success_witness:
  "snd (createTestUser (mockWorld mockConfig sendResolves)) =
     Inr \<lparr>username = lit ''ci-test-1719432000000-a3f6@test.example.com'',
          password = lit ''CiTest1!Lg1EZu7S''\<rparr> \<and>
   sent (fst (createTestUser (mockWorld mockConfig sendResolves))) =
     [SignUpCommand (lit ''test-client-id-123'')
        (lit ''ci-test-1719432000000-a3f6@test.example.com'') (lit ''CiTest1!Lg1EZu7S'')
        [(lit ''email'', lit ''ci-test-1719432000000-a3f6@test.example.com'')],
      AdminConfirmSignUpCommand (lit ''us-east-1_TestPool'')
        (lit ''ci-test-1719432000000-a3f6@test.example.com'')]"
proof -
  let ?w = "mockWorld mockConfig sendResolves"
  have ok: "cognitoSend ?w c = Inr ()" for c
    by (simp add: mockWorld_def sendResolves_def)
  show ?thesis
    using createTestUser_success
      [OF mock_fields(1) mock_fields_nonempty(1) mock_fields(2) mock_fields_nonempty(2)
        mock_fields(3) mock_fields_nonempty(3) refl mock_email [symmetric] mock_pw [symmetric]
        ok ok]
    by simp
qed

text \<open>
  Claim C7, amended. The region is validated in the same explicit way as the two
  identifiers, after them: with both identifiers present, a missing or empty region makes
  the run one line on standard error that names \<open>aws_cognito_region\<close> and the exit with
  status 1, before anything else happens; a region that is present is passed to the
  provider client.
\<close>

theorem createTestUser_region:
  assumes "amplifyconfig w ''aws_user_pools_id'' = Some userPoolId" and "userPoolId \<noteq> []"
    and "amplifyconfig w ''aws_user_pools_web_client_id'' = Some clientId" and "clientId \<noteq> []"
  shows "if falsy (amplifyconfig w ''aws_cognito_region'')
         then createTestUser w =
                ([ConsoleError
                    [Str (crossMark @ lit '' Missing aws_cognito_region in Amplify configuration'')]],
                 Inl (ProcessExit 1))
         else NewCognitoClient (the (amplifyconfig w ''aws_cognito_region'')) \<in>
                set (fst (createTestUser w))"
proof (cases "falsy (amplifyconfig w ''aws_cognito_region'')")
  case True
  then show ?thesis
    using assms by (simp add: createTestUser_def falsy_iff)
next
  case False
  then obtain region where region: "amplifyconfig w ''aws_cognito_region'' = Some region"
      "region \<noteq> []"
    by (auto simp: falsy_iff)
  have "NewCognitoClient region \<in> set (fst (createTestUser w))"
    unfolding createTestUser_configured [OF assms region refl refl refl]
    by (simp split: sum.split)
  with False region show ?thesis
    by simp
qed

theorem createTestUser_region_witness:
  "createTestUser (mockWorld (mockConfig(''aws_cognito_region'' \<mapsto> [])) sendResolves) =
     ([ConsoleError [Str (crossMark @ lit '' Missing aws_cognito_region in Amplify configuration'')]],
      Inl (ProcessExit 1)) \<and>
   NewCognitoClient (lit ''us-east-1'') \<in> set (fst (createTestUser (mockWorld mockConfig sendResolves)))"
proof -
  let ?v = "mockWorld (mockConfig(''aws_cognito_region'' \<mapsto> [])) sendResolves"
  have fields: "amplifyconfig ?v ''aws_user_pools_id'' = Some (lit ''us-east-1_TestPool'')"
    "amplifyconfig ?v ''aws_user_pools_web_client_id'' = Some (lit ''test-client-id-123'')"
    by (simp_all add: mockWorld_def mockConfig_def)
  have empty: "falsy (amplifyconfig ?v ''aws_cognito_region'')"
    by (simp add: mockWorld_def falsy_def)
  have present: "\<not> falsy (amplifyconfig (mockWorld mockConfig sendResolves) ''aws_cognito_region'')"
    by (simp add: mock_fields falsy_def mock_fields_nonempty)
  show ?thesis
    using createTestUser_region
        [OF fields(1) mock_fields_nonempty(1) fields(2) mock_fields_nonempty(2)]
      createTestUser_region
        [OF mock_fields(1) mock_fields_nonempty(1) mock_fields(2) mock_fields_nonempty(2),
          of sendResolves]
      empty present
    by (simp add: mock_fields)
qed

text \<open>
  The claim as stated fails: with the region removed from the configuration of the unit
  tests, the run is the descriptive error for the region and the exit with status 1.
\<close>

theorem createTestUser_region_counterexample:
  "createTestUser (mockWorld (mockConfig(''aws_cognito_region'' := None)) sendResolves) =
     ([ConsoleError [Str (crossMark @ lit '' Missing aws_cognito_region in Amplify configuration'')]],
      Inl (ProcessExit 1))"
  by (simp add: createTestUser_def mockWorld_def mockConfig_def falsy_def lit_def)

end
